theory Spec2Isabelle
  imports Main
begin

section \<open>The object size detector: data\<close>

text \<open>
  The program (\<^verbatim>\<open>application/src/main.cpp\<close>) keeps all of its state in global
  variables. They are grouped here by the mutex that guards them: the frame hand-off
  (\<^verbatim>\<open>frame\<close>, \<^verbatim>\<open>nextImage\<close>, mutex \<^verbatim>\<open>m\<close>) and the assembly line
  bookkeeping (the counters, the flags and \<^verbatim>\<open>currentInfo\<close>, mutex \<^verbatim>\<open>m2\<close>).

  C++ \<^verbatim>\<open>int\<close> is 32 bits wide. It is modelled by \<open>int\<close> with the wrap-around
  written out: every \<^verbatim>\<open>++\<close>, sum and product of the program goes through
  \<open>wrap32\<close>, which maps a result past \<^verbatim>\<open>INT_MAX\<close> = 2147483647 back into the
  32-bit range, as the compiled program does (from \<^verbatim>\<open>INT_MAX\<close> to \<^verbatim>\<open>INT_MIN\<close>).
\<close>

definition wrap32 :: "int \<Rightarrow> int" where
  "wrap32 x = (x + 2147483648) mod 4294967296 - 2147483648"

text \<open>\<^verbatim>\<open>cv::Rect\<close>: x, y, width, height. A default constructed one is all zero.\<close>

datatype Rect = Rect (rect_x: int) (rect_y: int) (rect_width: int) (rect_height: int)

text \<open>
  \<^verbatim>\<open>struct AssemblyInfo\<close>. The field \<^verbatim>\<open>show\<close> is called \<open>show_flag\<close> here, since
  \<^verbatim>\<open>show\<close> is a reserved word.
\<close>

record AssemblyInfo =
  inc_total :: bool
  defect :: bool
  area :: int
  show_flag :: bool
  rect :: Rect

text \<open>The globals of the assembly line bookkeeping (lines 74 to 94).\<close>

record globals =
  min_area :: int
  max_area :: int
  total_parts :: int
  total_defects :: int
  prev_seen :: bool
  prev_defect :: bool
  frame_defect_count :: int
  frame_ok_count :: int
  currentInfo :: AssemblyInfo

text \<open>
  The state at the start of the worker threads: \<^verbatim>\<open>min_area\<close> and \<^verbatim>\<open>max_area\<close> as
  the command line gave them, everything else as its initialiser says
  (\<^verbatim>\<open>currentInfo = {false}\<close> zeroes every field).
\<close>

definition init :: "int \<Rightarrow> int \<Rightarrow> globals" where
  "init mn mx =
     \<lparr>min_area = mn, max_area = mx, total_parts = 0, total_defects = 0,
      prev_seen = False, prev_defect = False, frame_defect_count = 0, frame_ok_count = 0,
      currentInfo = \<lparr>inc_total = False, defect = False, area = 0, show_flag = False,
                     rect = Rect 0 0 0 0\<rparr>\<rparr>"

section \<open>The accessors of \<^verbatim>\<open>currentInfo\<close>\<close>

definition getCurrentInfo :: "globals \<Rightarrow> AssemblyInfo" where
  "getCurrentInfo g = currentInfo g"

text \<open>
  \<^verbatim>\<open>updateInfo\<close> copies four fields (not \<^verbatim>\<open>inc_total\<close>) and bumps the totals.
\<close>

definition updateInfo :: "AssemblyInfo \<Rightarrow> globals \<Rightarrow> globals" where
  "updateInfo info g =
     (let g1 = g\<lparr>currentInfo := (currentInfo g)\<lparr>defect := defect info, show_flag := show_flag info,
                                                area := area info, rect := rect info\<rparr>\<rparr>;
          g2 = (if inc_total info then g1\<lparr>total_parts := wrap32 (total_parts g1 + 1)\<rparr> else g1)
      in if defect info then g2\<lparr>total_defects := wrap32 (total_defects g2 + 1)\<rparr> else g2)"

section \<open>The defect decision of \<^verbatim>\<open>frameRunner\<close>\<close>

text \<open>
  Lines 233 to 274 of \<^verbatim>\<open>frameRunner\<close>: from the area and the rectangle of the largest
  object of the frame (\<^verbatim>\<open>part_area\<close>, \<^verbatim>\<open>max_rect\<close>) to the \<^verbatim>\<open>AssemblyInfo\<close> handed
  to \<^verbatim>\<open>updateInfo\<close>. The triple is the locals \<^verbatim>\<open>defect\<close>, \<^verbatim>\<open>inc_total\<close> and the
  globals after the \<^verbatim>\<open>if\<close>. A frame shows a part exactly when \<^verbatim>\<open>part_area != 0\<close>.
\<close>

definition decide :: "int \<Rightarrow> Rect \<Rightarrow> globals \<Rightarrow> AssemblyInfo \<times> globals" where
  "decide part_area max_rect g =
     (let (defect_l, inc_total_l, g') =
        (if part_area \<noteq> 0 then
           (let frame_defect = (part_area > max_area g \<or> part_area < min_area g);
                g1 = (if frame_defect
                      then g\<lparr>frame_defect_count := wrap32 (frame_defect_count g + 1)\<rparr>
                      else g\<lparr>frame_ok_count := wrap32 (frame_ok_count g + 1)\<rparr>)
            in if \<not> prev_seen g1 then (False, True, g1\<lparr>prev_seen := True\<rparr>)
               else
                 (let g2 = (if \<not> frame_defect \<and> frame_ok_count g1 > 10
                            then g1\<lparr>frame_defect_count := 0\<rparr> else g1)
                  in if frame_defect \<and> frame_defect_count g2 > 10
                     then (if \<not> prev_defect g2
                           then (True, False, g2\<lparr>prev_defect := True, frame_ok_count := 0\<rparr>)
                           else (False, False, g2\<lparr>frame_ok_count := 0\<rparr>))
                     else (False, False, g2)))
         else (False, False,
               g\<lparr>prev_seen := False, prev_defect := False,
                 frame_defect_count := 0, frame_ok_count := 0\<rparr>))
      in (\<lparr>inc_total = inc_total_l, defect = defect_l, area = part_area,
           show_flag = prev_defect g', rect = max_rect\<rparr>, g'))"

text \<open>One processed frame: the decision, then \<^verbatim>\<open>updateInfo\<close> (line 276).\<close>

definition verdict :: "int \<times> Rect \<Rightarrow> globals \<Rightarrow> AssemblyInfo" where
  "verdict m g = fst (decide (fst m) (snd m) g)"

definition tick :: "int \<times> Rect \<Rightarrow> globals \<Rightarrow> globals" where
  "tick m g = updateInfo (verdict m g) (snd (decide (fst m) (snd m) g))"

text \<open>A run of the worker over the measurements of successive frames.\<close>

fun run :: "(int \<times> Rect) list \<Rightarrow> globals \<Rightarrow> globals" where
  "run [] g = g"
| "run (m # ms) g = run ms (tick m g)"

fun verdicts :: "(int \<times> Rect) list \<Rightarrow> globals \<Rightarrow> AssemblyInfo list" where
  "verdicts [] g = []"
| "verdicts (m # ms) g = verdict m g # verdicts ms (tick m g)"

section \<open>The telemetry publisher\<close>

definition topic :: string where
  "topic = ''defects/counter''"

text \<open>
  \<^verbatim>\<open>s << info.defect\<close> writes a \<^verbatim>\<open>bool\<close> to a stream that never had
  \<^verbatim>\<open>boolalpha\<close> set: the digit 1 or 0.
\<close>

definition put_bool :: "bool \<Rightarrow> string" where
  "put_bool b = (if b then ''1'' else ''0'')"

text \<open>The payload that \<^verbatim>\<open>publishMQTTMessage\<close> builds (lines 165 to 167).\<close>

definition payload :: "AssemblyInfo \<Rightarrow> string" where
  \<open>payload info = ''{"Defect": "'' @ put_bool (defect info) @ ''"}''\<close>

text \<open>
  \<^verbatim>\<open>mqtt_publish\<close> belongs to the MQTT client library; the channel is modelled by the
  list of the (topic, payload) pairs handed to it, oldest first.
\<close>

definition publishMQTTMessage ::
  "string \<Rightarrow> AssemblyInfo \<Rightarrow> (string \<times> string) list \<Rightarrow> (string \<times> string) list" where
  "publishMQTTMessage tp info sent = sent @ [(tp, payload info)]"

text \<open>One round of the loop of \<^verbatim>\<open>messageRunner\<close> (lines 286 and 287).\<close>

definition messageRunner_round :: "globals \<Rightarrow> (string \<times> string) list \<Rightarrow> (string \<times> string) list" where
  "messageRunner_round g sent = publishMQTTMessage topic (getCurrentInfo g) sent"

text \<open>
  What a subscriber reads as the field \<open>Defect\<close> of a payload of the shape
  \<^verbatim>\<open>{"Defect": "v"}\<close>: the characters \<open>v\<close> between the quotes. This is the
  reader's side of the wire format, used to state what is sent; it is no part of the
  program.
\<close>

definition Defect_field :: "string \<Rightarrow> string option" where
  \<open>Defect_field s =
     (if 14 \<le> length s \<and> take 12 s = ''{"Defect": "'' \<and> drop (length s - 2) s = ''"}''
      then Some (take (length s - 14) (drop 12 s)) else None)\<close>

section \<open>The frame hand-off\<close>

text \<open>
  A \<^verbatim>\<open>cv::Mat\<close> is modelled by the picture it holds, \<open>None\<close> for an empty
  \<^verbatim>\<open>Mat\<close> (\<^verbatim>\<open>empty()\<close> is true): every captured picture is a value of its own,
  as it is when \<^verbatim>\<open>cap.read\<close> and \<^verbatim>\<open>resize\<close> allocate a fresh buffer for it. The
  globals of the hand-off are the frame the main thread reads the camera into, and the
  queue \<^verbatim>\<open>nextImage\<close>. The two threads are modelled by their loop rounds, each round
  running as a whole: \<open>capture\<close> for the main thread, \<open>frameRunner_round\<close> for the
  worker.
\<close>

type_synonym 'p Mat = "'p option"

record 'p handoff =
  frame :: "'p Mat"
  nextImage :: "'p Mat list"

text \<open>\<^verbatim>\<open>nextImageAvailable\<close>: the front of the queue, popped; an empty \<^verbatim>\<open>Mat\<close> when
  the queue is empty.\<close>

definition nextImageAvailable :: "'p handoff \<Rightarrow> 'p Mat \<times> 'p handoff" where
  "nextImageAvailable h =
     (case nextImage h of
        [] \<Rightarrow> (None, h)
      | img # rest \<Rightarrow> (img, h\<lparr>nextImage := rest\<rparr>))"

text \<open>\<^verbatim>\<open>addImage\<close> returns \<^verbatim>\<open>void\<close>: the value \<open>()\<close>, with the globals after
  the call.\<close>

definition addImage :: "'p Mat \<Rightarrow> 'p handoff \<Rightarrow> unit \<times> 'p handoff" where
  "addImage img h =
     ((), if nextImage h = [] then h\<lparr>nextImage := nextImage h @ [img]\<rparr> else h)"

text \<open>
  One round of the capture loop of \<^verbatim>\<open>main\<close> that got a picture \<open>p\<close> from the
  camera (lines 363 to 373): \<^verbatim>\<open>cap.read(frame)\<close> and \<^verbatim>\<open>resize\<close> leave the
  picture in the global \<^verbatim>\<open>frame\<close>, then \<^verbatim>\<open>addImage(frame)\<close>.
\<close>

definition capture :: "'p \<Rightarrow> 'p handoff \<Rightarrow> 'p handoff" where
  "capture p h = snd (addImage (Some p) (h\<lparr>frame := Some p\<rparr>))"

text \<open>
  The loop of lines 219 to 229 over the bounding rectangles of the contours: the
  largest rectangle that is wide enough and touches neither the left nor the right
  edge of the picture. The pair is \<^verbatim>\<open>max_blob_area\<close> and \<^verbatim>\<open>max_rect\<close>.
\<close>

fun largest :: "int \<Rightarrow> Rect list \<Rightarrow> int \<times> Rect \<Rightarrow> int \<times> Rect" where
  "largest cols [] acc = acc"
| "largest cols (r # rs) (max_blob_area, max_rect) =
     (let part_area = wrap32 (rect_width r * rect_height r)
      in if part_area > max_blob_area \<and> rect_x r > 0 \<and> wrap32 (rect_x r + rect_width r) < cols
            \<and> rect_width r > 30
         then largest cols rs (part_area, r)
         else largest cols rs (max_blob_area, max_rect))"

text \<open>
  The OpenCV calls of lines 202 to 216 and \<^verbatim>\<open>boundingRect\<close> are taken as
  parameters: \<open>cols\<close> is the width of a picture and \<open>rects\<close> the bounding
  rectangles of the contours found in it. \<open>measure_frame\<close> is the measurement of a
  picture: \<^verbatim>\<open>part_area\<close> and \<^verbatim>\<open>max_rect\<close> at line 230.
\<close>

definition measure_frame :: "('p \<Rightarrow> int) \<Rightarrow> ('p \<Rightarrow> Rect list) \<Rightarrow> 'p \<Rightarrow> int \<times> Rect" where
  "measure_frame cols rects p = largest (cols p) (rects p) (0, Rect 0 0 0 0)"

text \<open>
  One round of the loop of \<^verbatim>\<open>frameRunner\<close> (lines 189 to 277). The picture that
  \<^verbatim>\<open>cvtColor\<close> reads at line 202 is the global \<^verbatim>\<open>frame\<close>; \<^verbatim>\<open>next\<close> is only
  tested for emptiness. \<^verbatim>\<open>cvtColor\<close> raises on an empty picture, which ends the
  program: the result \<open>None\<close>.
\<close>

definition frameRunner_round ::
  "('p \<Rightarrow> int) \<Rightarrow> ('p \<Rightarrow> Rect list) \<Rightarrow> 'p handoff \<times> globals \<Rightarrow> ('p handoff \<times> globals) option" where
  "frameRunner_round cols rects hg =
     (let (next, h1) = nextImageAvailable (fst hg)
      in if next = None then Some (h1, snd hg)
         else (case frame h1 of
                 None \<Rightarrow> None
               | Some p \<Rightarrow> Some (h1, tick (measure_frame cols rects p) (snd hg))))"

section \<open>Facts about 32-bit arithmetic\<close>

lemma wrap32_id: "- 2147483648 \<le> x \<Longrightarrow> x < 2147483648 \<Longrightarrow> wrap32 x = x"
  by (simp add: wrap32_def)

lemma wrap32_add_left: "wrap32 (wrap32 x + y) = wrap32 (x + y)"
proof -
  have "((x + 2147483648) mod 4294967296 + y) mod 4294967296
          = (x + 2147483648 + y) mod (4294967296::int)"
    by (rule mod_add_left_eq)
  then show ?thesis by (simp add: wrap32_def ac_simps)
qed

lemma wrap32_range: "- 2147483648 \<le> wrap32 x" "wrap32 x < 2147483648"
  by (simp_all add: wrap32_def)

section \<open>Facts about one processed frame\<close>

lemma run_append: "run (xs @ ys) g = run ys (run xs g)"
  by (induction xs arbitrary: g) simp_all

lemma verdict_defect_iff:
  "defect (verdict m g) \<longleftrightarrow>
     fst m \<noteq> 0 \<and> prev_seen g \<and> \<not> prev_defect g
     \<and> (fst m > max_area g \<or> fst m < min_area g) \<and> wrap32 (frame_defect_count g + 1) > 10"
  by (auto simp: verdict_def decide_def Let_def)

lemma verdict_inc_total_iff: "inc_total (verdict m g) \<longleftrightarrow> fst m \<noteq> 0 \<and> \<not> prev_seen g"
  by (auto simp: verdict_def decide_def Let_def)

lemma verdict_show_flag:
  "show_flag (verdict m g) \<longleftrightarrow> fst m \<noteq> 0 \<and> (prev_defect g \<or> defect (verdict m g))"
  by (auto simp: verdict_def decide_def Let_def)

lemma verdict_area_rect: "area (verdict m g) = fst m" "rect (verdict m g) = snd m"
  by (auto simp: verdict_def decide_def Let_def)

lemma tick_prev_seen: "prev_seen (tick m g) \<longleftrightarrow> fst m \<noteq> 0"
  by (auto simp: tick_def verdict_def decide_def updateInfo_def Let_def)

lemma tick_prev_defect:
  "prev_defect (tick m g) \<longleftrightarrow> fst m \<noteq> 0 \<and> (prev_defect g \<or> defect (verdict m g))"
  by (auto simp: tick_def verdict_def decide_def updateInfo_def Let_def)

lemma tick_bounds: "min_area (tick m g) = min_area g" "max_area (tick m g) = max_area g"
  by (auto simp: tick_def verdict_def decide_def updateInfo_def Let_def)

lemma tick_total_parts:
  "total_parts (tick m g)
     = (if inc_total (verdict m g) then wrap32 (total_parts g + 1) else total_parts g)"
  by (auto simp: tick_def verdict_def decide_def updateInfo_def Let_def)

lemma tick_total_defects:
  "total_defects (tick m g)
     = (if defect (verdict m g) then wrap32 (total_defects g + 1) else total_defects g)"
  by (auto simp: tick_def verdict_def decide_def updateInfo_def Let_def)

lemma tick_frame_defect_count:
  "frame_defect_count (tick m g) =
     (if fst m = 0 then 0
      else if fst m > max_area g \<or> fst m < min_area g then wrap32 (frame_defect_count g + 1)
      else if prev_seen g \<and> wrap32 (frame_ok_count g + 1) > 10 then 0
      else frame_defect_count g)"
  by (auto simp: tick_def verdict_def decide_def updateInfo_def Let_def)

lemma tick_frame_ok_count:
  "frame_ok_count (tick m g) =
     (if fst m = 0 then 0
      else if fst m > max_area g \<or> fst m < min_area g
           then (if prev_seen g \<and> wrap32 (frame_defect_count g + 1) > 10 then 0
                 else frame_ok_count g)
      else wrap32 (frame_ok_count g + 1))"
  by (auto simp: tick_def verdict_def decide_def updateInfo_def Let_def)

lemma tick_currentInfo:
  "currentInfo (tick m g) = (verdict m g)\<lparr>inc_total := inc_total (currentInfo g)\<rparr>"
  by (auto simp: tick_def verdict_def decide_def updateInfo_def Let_def)

section \<open>Scenario B: a part that fails on every frame\<close>

text \<open>
  Claim C1, as amended. Bounds 20000 and 30000, initial state, a part of area 35000
  seen on 13 successive frames (the frame on which it arrives and 12 more). The frame on
  which the part arrives already counts as a failing frame, so \<^verbatim>\<open>frame_defect_count\<close>
  passes 10 on the 11th frame of the sequence: the defect is reported exactly once, on
  the 11th frame, and \<^verbatim>\<open>total_defects\<close> is 1 after the run.
\<close>

theorem scenario_B_eleventh_frame:
  "map defect (verdicts (replicate 13 (35000, r)) (init 20000 30000))
     = replicate 10 False @ [True, False, False]
   \<and> total_defects (run (replicate 13 (35000, r)) (init 20000 30000)) = 1"
  by (simp add: numeral_eq_Suc verdict_def tick_def decide_def updateInfo_def init_def wrap32_def)

theorem scenario_B_eleventh_frame_witness:
  "map defect (verdicts (replicate 13 (35000, Rect 10 10 200 175)) (init 20000 30000))
     = [False, False, False, False, False, False, False, False, False, False, True, False, False]
   \<and> total_defects (run (replicate 13 (35000, Rect 10 10 200 175)) (init 20000 30000)) = 1"
  using scenario_B_eleventh_frame [of "Rect 10 10 200 175"] by (simp add: numeral_eq_Suc)

text \<open>
  Claim C1 as the specification states it puts the report on the 12th frame. On the
  code the 11th frame (index 10) carries it and the 12th (index 11) does not.
\<close>

theorem scenario_B_twelfth_frame_counterexample:
  "defect (verdicts (replicate 13 (35000, Rect 10 10 200 175)) (init 20000 30000) ! 10)
   \<and> \<not> defect (verdicts (replicate 13 (35000, Rect 10 10 200 175)) (init 20000 30000) ! 11)"
  by code_simp

section \<open>Hysteresis\<close>

text \<open>
  Claim C2 at a failing input. Bounds 20000 and 30000, initial state. A part fails on 5
  frames, passes on one, and fails on 6 more: never on more than 6 frames in a row.
  The comments at lines 248 and 252 speak of 10 previous consecutive frames, but
  \<^verbatim>\<open>frame_defect_count\<close> is cleared on a passing frame only when
  \<^verbatim>\<open>frame_ok_count\<close> is above 10 (line 249), so it keeps counting across the passing
  frame and the 12th frame reports a defect.
\<close>

theorem hysteresis_failing_input:
  "map defect (verdicts (replicate 5 (35000, Rect 10 10 200 175) @ [(25000, Rect 10 10 200 125)]
                          @ replicate 6 (35000, Rect 10 10 200 175)) (init 20000 30000))
     = replicate 11 False @ [True]"
  by code_simp

section \<open>The two counters\<close>

text \<open>
  Claim C3, as amended. On a processed frame the two counters are never both
  incremented. A frame without a part sets both to 0. A frame with a part, the first
  frame of a new part included, increments exactly one of them by one in 32-bit
  arithmetic (a counter at \<^verbatim>\<open>INT_MAX\<close> wraps to \<^verbatim>\<open>INT_MIN\<close>): the defect counter
  when the area is outside the bounds, the ok counter otherwise. The other counter is
  not incremented: it is left as it was or set to 0.
\<close>

theorem counters_step:
  "(fst m = 0 \<longrightarrow> frame_ok_count (tick m g) = 0 \<and> frame_defect_count (tick m g) = 0)
   \<and> (fst m \<noteq> 0 \<and> (fst m > max_area g \<or> fst m < min_area g) \<longrightarrow>
        frame_defect_count (tick m g) = wrap32 (frame_defect_count g + 1)
        \<and> (frame_ok_count (tick m g) = frame_ok_count g \<or> frame_ok_count (tick m g) = 0))
   \<and> (fst m \<noteq> 0 \<and> \<not> (fst m > max_area g \<or> fst m < min_area g) \<longrightarrow>
        frame_ok_count (tick m g) = wrap32 (frame_ok_count g + 1)
        \<and> (frame_defect_count (tick m g) = frame_defect_count g
            \<or> frame_defect_count (tick m g) = 0))"
  by (simp add: tick_frame_ok_count tick_frame_defect_count)

theorem counters_step_witness:
  "frame_ok_count (tick (0, Rect 0 0 0 0) (run [(35000, Rect 10 10 200 175)] (init 20000 30000))) = 0
   \<and> frame_defect_count (tick (0, Rect 0 0 0 0) (run [(35000, Rect 10 10 200 175)] (init 20000 30000))) = 0
   \<and> frame_defect_count (tick (35000, Rect 10 10 200 175) (init 20000 30000)) = 1
   \<and> frame_ok_count (tick (25000, Rect 10 10 200 125) (init 20000 30000)) = 1
   \<and> frame_defect_count (tick (35000, Rect 10 10 200 175)
        ((init 20000 30000)\<lparr>prev_seen := True, prev_defect := True,
                             frame_defect_count := 2147483647\<rparr>)) = - 2147483648"
  using counters_step [of "(0, Rect 0 0 0 0)" "run [(35000, Rect 10 10 200 175)] (init 20000 30000)"]
    counters_step [of "(35000, Rect 10 10 200 175)" "init 20000 30000"]
    counters_step [of "(25000, Rect 10 10 200 125)" "init 20000 30000"]
    counters_step [of "(35000, Rect 10 10 200 175)"
      "(init 20000 30000)\<lparr>prev_seen := True, prev_defect := True,
                             frame_defect_count := 2147483647\<rparr>"]
  by (simp add: init_def wrap32_def)

text \<open>
  Claim C3 as the specification states it fails twice. On the first frame of a new
  part (here a passing one, from the initial state) the counters are not both 0
  afterwards: the frame is counted. On the next frame, a failing one of the same part,
  the ok counter is not set to 0: it stays 1.
\<close>

theorem counters_reset_counterexample:
  "\<not> (frame_ok_count (tick (25000, Rect 10 10 200 125) (init 20000 30000)) = 0
       \<and> frame_defect_count (tick (25000, Rect 10 10 200 125) (init 20000 30000)) = 0)
   \<and> \<not> (frame_ok_count (tick (35000, Rect 10 10 200 175)
                            (tick (25000, Rect 10 10 200 125) (init 20000 30000))) = 0
         \<and> frame_defect_count (tick (35000, Rect 10 10 200 175)
                                  (tick (25000, Rect 10 10 200 125) (init 20000 30000)))
             = frame_defect_count (tick (25000, Rect 10 10 200 125) (init 20000 30000)) + 1)"
  by (simp add: tick_def verdict_def decide_def updateInfo_def init_def wrap32_def)

section \<open>One report per part\<close>

lemma no_defect_after_confirmed:
  "prev_defect g \<Longrightarrow> \<forall>m \<in> set ms. fst m \<noteq> 0 \<Longrightarrow> \<forall>v \<in> set (verdicts ms g). \<not> defect v"
proof (induction ms arbitrary: g)
  case Nil
  then show ?case by simp
next
  case (Cons m ms)
  from Cons.prems have "prev_defect (tick m g)" by (simp add: tick_prev_defect)
  with Cons show ?case by (simp add: verdict_defect_iff)
qed

lemma at_most_one_defect:
  "\<forall>m \<in> set ms. fst m \<noteq> 0 \<Longrightarrow> length (filter defect (verdicts ms g)) \<le> 1"
proof (induction ms arbitrary: g)
  case Nil
  then show ?case by simp
next
  case (Cons m ms)
  show ?case
  proof (cases "defect (verdict m g)")
    case True
    then have "prev_defect (tick m g)" using Cons.prems by (simp add: tick_prev_defect)
    with Cons.prems have "\<forall>v \<in> set (verdicts ms (tick m g)). \<not> defect v"
      by (intro no_defect_after_confirmed) simp_all
    then have "filter defect (verdicts ms (tick m g)) = []" by (simp add: filter_empty_conv)
    with True show ?thesis by simp
  next
    case False
    with Cons show ?thesis by simp
  qed
qed

text \<open>
  Claim C6. Let every frame of \<open>ms\<close> show a part (\<^verbatim>\<open>part_area != 0\<close>), so that the
  part stays on the belt. If the frame \<open>m\<close> before them reports a defect, no frame of
  \<open>ms\<close> reports one; and from any state, the frames of \<open>ms\<close> report at most one defect.
  Only a frame without a part clears \<^verbatim>\<open>prev_defect\<close>.
\<close>

theorem edge_trigger:
  assumes "\<forall>m \<in> set ms. fst m \<noteq> 0"
  shows "(defect (verdict m g) \<longrightarrow> (\<forall>v \<in> set (verdicts ms (tick m g)). \<not> defect v))
         \<and> length (filter defect (verdicts ms g)) \<le> 1"
proof
  show "defect (verdict m g) \<longrightarrow> (\<forall>v \<in> set (verdicts ms (tick m g)). \<not> defect v)"
  proof
    assume d: "defect (verdict m g)"
    then have "fst m \<noteq> 0" by (simp add: verdict_defect_iff)
    with d have "prev_defect (tick m g)" by (simp add: tick_prev_defect)
    then show "\<forall>v \<in> set (verdicts ms (tick m g)). \<not> defect v"
      using assms by (rule no_defect_after_confirmed)
  qed
  show "length (filter defect (verdicts ms g)) \<le> 1"
    using assms by (rule at_most_one_defect)
qed

theorem edge_trigger_witness:
  "fst (35000, Rect 10 10 200 175) \<noteq> (0::int)
   \<and> defect (verdict (35000, Rect 10 10 200 175)
               (run (replicate 10 (35000, Rect 10 10 200 175)) (init 20000 30000)))
   \<and> map defect (verdicts (replicate 3 (35000, Rect 10 10 200 175))
                   (tick (35000, Rect 10 10 200 175)
                      (run (replicate 10 (35000, Rect 10 10 200 175)) (init 20000 30000))))
       = [False, False, False]"
proof -
  have p: "\<forall>m \<in> set (replicate 3 (35000, Rect 10 10 200 175)). fst m \<noteq> (0::int)"
    by simp
  have d: "defect (verdict (35000, Rect 10 10 200 175)
               (run (replicate 10 (35000, Rect 10 10 200 175)) (init 20000 30000)))"
    by code_simp
  from edge_trigger [OF p, of "(35000, Rect 10 10 200 175)"
      "run (replicate 10 (35000, Rect 10 10 200 175)) (init 20000 30000)"] d
  have "\<forall>v \<in> set (verdicts (replicate 3 (35000, Rect 10 10 200 175))
                   (tick (35000, Rect 10 10 200 175)
                      (run (replicate 10 (35000, Rect 10 10 200 175)) (init 20000 30000)))).
          \<not> defect v"
    by blast
  then have "map defect (verdicts (replicate 3 (35000, Rect 10 10 200 175))
                   (tick (35000, Rect 10 10 200 175)
                      (run (replicate 10 (35000, Rect 10 10 200 175)) (init 20000 30000))))
       = [False, False, False]"
    by (simp add: numeral_eq_Suc)
  with d show ?thesis by simp
qed

section \<open>The totals\<close>

lemma counted_tick:
  assumes "0 \<le> total_defects g" and "total_defects g \<le> total_parts g"
    and "prev_seen g \<and> \<not> prev_defect g \<longrightarrow> total_defects g < total_parts g"
    and "total_parts g + (if inc_total (verdict m g) then 1 else 0) < 2147483648"
  shows "0 \<le> total_defects (tick m g)
         \<and> total_defects (tick m g) \<le> total_parts (tick m g)
         \<and> (prev_seen (tick m g) \<and> \<not> prev_defect (tick m g)
              \<longrightarrow> total_defects (tick m g) < total_parts (tick m g))
         \<and> total_parts (tick m g) = total_parts g + (if inc_total (verdict m g) then 1 else 0)"
proof -
  have parts: "inc_total (verdict m g) \<Longrightarrow> wrap32 (total_parts g + 1) = total_parts g + 1"
    using assms by (intro wrap32_id) simp_all
  have defects: "defect (verdict m g) \<Longrightarrow> wrap32 (total_defects g + 1) = total_defects g + 1"
    using assms by (intro wrap32_id) (auto simp: verdict_defect_iff split: if_splits)
  show ?thesis
    using assms parts defects
    by (auto simp: tick_total_parts tick_total_defects tick_prev_seen tick_prev_defect
        verdict_defect_iff verdict_inc_total_iff)
qed

lemma counted_run:
  "0 \<le> total_defects g \<Longrightarrow> total_defects g \<le> total_parts g \<Longrightarrow>
   (prev_seen g \<and> \<not> prev_defect g \<longrightarrow> total_defects g < total_parts g) \<Longrightarrow>
   total_parts g + int (length (filter inc_total (verdicts ms g))) < 2147483648 \<Longrightarrow>
   total_defects (run ms g) \<le> total_parts (run ms g)"
proof (induction ms arbitrary: g)
  case Nil
  then show ?case by simp
next
  case (Cons m ms)
  have room: "total_parts g + (if inc_total (verdict m g) then 1 else 0) < 2147483648"
    using Cons.prems(4) by (simp split: if_splits)
  note step = counted_tick [OF Cons.prems(1-3) room]
  from step have s1: "0 \<le> total_defects (tick m g)" by blast
  from step have s2: "total_defects (tick m g) \<le> total_parts (tick m g)" by blast
  from step have s3: "prev_seen (tick m g) \<and> \<not> prev_defect (tick m g)
              \<longrightarrow> total_defects (tick m g) < total_parts (tick m g)" by blast
  from step have s4: "total_parts (tick m g)
              = total_parts g + (if inc_total (verdict m g) then 1 else 0)" by blast
  have s5: "total_parts (tick m g) + int (length (filter inc_total (verdicts ms (tick m g))))
          < 2147483648"
    using Cons.prems(4) unfolding s4 by (simp split: if_splits)
  from Cons.IH [OF s1 s2 s3 s5] show ?case by simp
qed

text \<open>
  Claim C7, as amended. From the initial state, whatever the bounds and whatever the
  frames processed, \<^verbatim>\<open>total_defects\<close> never exceeds \<^verbatim>\<open>total_parts\<close> as long as
  fewer than 2147483648 parts have been registered (frames with \<^verbatim>\<open>inc_total\<close>), that
  is, as long as \<^verbatim>\<open>total_parts\<close> has not passed \<^verbatim>\<open>INT_MAX\<close>.
\<close>

theorem totals_invariant:
  assumes "length (filter inc_total (verdicts ms (init mn mx))) < 2147483648"
  shows "total_defects (run ms (init mn mx)) \<le> total_parts (run ms (init mn mx))"
  using assms by (intro counted_run) (simp_all add: init_def)

theorem totals_invariant_witness:
  "length (filter inc_total (verdicts (replicate 13 (35000, Rect 10 10 200 175)) (init 20000 30000)))
     < 2147483648
   \<and> total_defects (run (replicate 13 (35000, Rect 10 10 200 175)) (init 20000 30000)) = 1
   \<and> 1 \<le> total_parts (run (replicate 13 (35000, Rect 10 10 200 175)) (init 20000 30000))"
proof -
  have n: "length (filter inc_total
             (verdicts (replicate 13 (35000, Rect 10 10 200 175)) (init 20000 30000))) = 1"
    by code_simp
  then have b: "length (filter inc_total
             (verdicts (replicate 13 (35000, Rect 10 10 200 175)) (init 20000 30000)))
           < 2147483648"
    by simp
  have "total_defects (run (replicate 13 (35000, Rect 10 10 200 175)) (init 20000 30000)) = 1"
    by code_simp
  with totals_invariant [OF b] b show ?thesis by simp
qed

lemma parts_cycle:
  assumes "a \<noteq> 0"
  shows "\<not> prev_seen g \<Longrightarrow> - 2147483648 \<le> total_parts g \<Longrightarrow> total_parts g < 2147483648 \<Longrightarrow>
         total_parts (run (concat (replicate n [(a, r), (0, z)])) g)
           = wrap32 (total_parts g + int n)
         \<and> total_defects (run (concat (replicate n [(a, r), (0, z)])) g) = total_defects g"
proof (induction n arbitrary: g)
  case 0
  then show ?case by (simp add: wrap32_id)
next
  case (Suc n)
  let ?g = "tick (0, z) (tick (a, r) g)"
  have seen: "\<not> prev_seen ?g" by (simp add: tick_prev_seen)
  have parts: "total_parts ?g = wrap32 (total_parts g + 1)"
    using Suc.prems assms
    by (simp add: tick_total_parts verdict_inc_total_iff tick_prev_seen)
  have defects: "total_defects ?g = total_defects g"
    using Suc.prems by (simp add: tick_total_defects verdict_defect_iff)
  have lo: "- 2147483648 \<le> total_parts ?g" and hi: "total_parts ?g < 2147483648"
    unfolding parts by (rule wrap32_range)+
  have "wrap32 (wrap32 (total_parts g + 1) + int n) = wrap32 (total_parts g + 1 + int n)"
    by (rule wrap32_add_left)
  then have "wrap32 (wrap32 (total_parts g + 1) + int n) = wrap32 (total_parts g + int (Suc n))"
    by (simp add: ac_simps)
  with Suc.IH [OF seen lo hi] parts defects show ?case by simp
qed

text \<open>
  Claim C7 as the specification states it has no bound. Bounds 20000 and 30000,
  initial state: 2147483648 parts pass by, each seen on one frame and followed by a
  frame of the empty belt. \<^verbatim>\<open>total_parts\<close> wraps to \<^verbatim>\<open>INT_MIN\<close>, below the 0 of
  \<^verbatim>\<open>total_defects\<close>.
\<close>

theorem totals_wrap_counterexample:
  "\<not> total_defects (run (concat (replicate 2147483648
           [(25000, Rect 10 10 200 125), (0, Rect 0 0 0 0)])) (init 20000 30000))
      \<le> total_parts (run (concat (replicate 2147483648
           [(25000, Rect 10 10 200 125), (0, Rect 0 0 0 0)])) (init 20000 30000))"
proof -
  have "\<not> prev_seen (init 20000 30000)" by (simp add: init_def)
  from parts_cycle [OF _ this, of 25000 2147483648 "Rect 10 10 200 125" "Rect 0 0 0 0"]
  show ?thesis by (simp add: init_def wrap32_def)
qed

text \<open>
  Claim C10. No processed frame both registers a new part and reports a defect, in any
  state and for any measurement: a frame reports a defect only for a part that an
  earlier frame has registered (\<^verbatim>\<open>prev_seen\<close> is set), and such a frame does not set
  \<^verbatim>\<open>inc_total\<close>.
\<close>

theorem inc_total_excludes_defect:
  "\<not> (inc_total (verdict m g) \<and> defect (verdict m g))
   \<and> (defect (verdict m g) \<longrightarrow> prev_seen g \<and> \<not> inc_total (verdict m g))"
  by (simp add: verdict_inc_total_iff verdict_defect_iff)

theorem inc_total_excludes_defect_witness:
  "defect (verdict (35000, Rect 10 10 200 175)
             (run (replicate 10 (35000, Rect 10 10 200 175)) (init 20000 30000)))
   \<and> \<not> inc_total (verdict (35000, Rect 10 10 200 175)
             (run (replicate 10 (35000, Rect 10 10 200 175)) (init 20000 30000)))
   \<and> prev_seen (run (replicate 10 (35000, Rect 10 10 200 175)) (init 20000 30000))"
proof -
  have d: "defect (verdict (35000, Rect 10 10 200 175)
             (run (replicate 10 (35000, Rect 10 10 200 175)) (init 20000 30000)))"
    by code_simp
  from inc_total_excludes_defect [of "(35000, Rect 10 10 200 175)"
      "run (replicate 10 (35000, Rect 10 10 200 175)) (init 20000 30000)"] d
  show ?thesis by simp
qed

section \<open>The empty belt\<close>

text \<open>
  Claim C9. A frame without a part (\<^verbatim>\<open>part_area == 0\<close>), in any state: the
  \<^verbatim>\<open>AssemblyInfo\<close> handed on has \<^verbatim>\<open>inc_total\<close>, \<^verbatim>\<open>defect\<close> and \<^verbatim>\<open>show\<close> false,
  the flags \<^verbatim>\<open>prev_seen\<close> and \<^verbatim>\<open>prev_defect\<close> are false and both counters 0
  afterwards, and the next frame with a part has \<^verbatim>\<open>inc_total\<close> true.
\<close>

theorem absent_resets:
  "verdict (0, r) g = \<lparr>inc_total = False, defect = False, area = 0, show_flag = False, rect = r\<rparr>
   \<and> snd (decide 0 r g) = g\<lparr>prev_seen := False, prev_defect := False,
                              frame_defect_count := 0, frame_ok_count := 0\<rparr>
   \<and> (a \<noteq> 0 \<longrightarrow> inc_total (verdict (a, r') (tick (0, r) g)))"
  by (simp add: verdict_inc_total_iff tick_prev_seen) (simp add: verdict_def decide_def)

theorem absent_resets_witness:
  "(35000::int) \<noteq> 0
   \<and> show_flag (verdict (35000, Rect 10 10 200 175)
                  (run (replicate 11 (35000, Rect 10 10 200 175)) (init 20000 30000)))
   \<and> \<not> show_flag (verdict (0, Rect 0 0 0 0)
                  (run (replicate 12 (35000, Rect 10 10 200 175)) (init 20000 30000)))
   \<and> inc_total (verdict (35000, Rect 10 10 200 175)
                  (tick (0, Rect 0 0 0 0)
                     (run (replicate 12 (35000, Rect 10 10 200 175)) (init 20000 30000))))"
proof -
  have s: "show_flag (verdict (35000, Rect 10 10 200 175)
                  (run (replicate 11 (35000, Rect 10 10 200 175)) (init 20000 30000)))"
    by code_simp
  from absent_resets [of "Rect 0 0 0 0"
      "run (replicate 12 (35000, Rect 10 10 200 175)) (init 20000 30000)" 35000
      "Rect 10 10 200 175"] s
  show ?thesis by simp
qed

section \<open>What the publisher sends\<close>

lemma payload_cases:
  \<open>payload info = (if defect info then ''{"Defect": "1"}'' else ''{"Defect": "0"}'')\<close>
  by (simp add: payload_def put_bool_def)

text \<open>
  Claim C4, as amended. Each round of \<^verbatim>\<open>messageRunner\<close> sends one message on the
  topic, whose payload is built from the \<^verbatim>\<open>currentInfo\<close> read in that round: the JSON
  object with the one field \<open>Defect\<close>, which is the string \<open>1\<close> when
  \<^verbatim>\<open>currentInfo.defect\<close> is true and the string \<open>0\<close> when it is false.
\<close>

theorem payload_Defect_digit:
  "messageRunner_round g sent = sent @ [(topic, payload (currentInfo g))]
   \<and> Defect_field (payload (currentInfo g)) = Some (if defect (currentInfo g) then ''1'' else ''0'')"
  by (simp add: messageRunner_round_def publishMQTTMessage_def getCurrentInfo_def
      payload_cases Defect_field_def)

theorem payload_Defect_digit_witness:
  \<open>messageRunner_round (run (replicate 11 (35000, Rect 10 10 200 175)) (init 20000 30000)) []
     = [(''defects/counter'', ''{"Defect": "1"}'')]
   \<and> Defect_field ''{"Defect": "1"}'' = Some ''1''\<close>
proof -
  have d: "defect (currentInfo (run (replicate 11 (35000, Rect 10 10 200 175)) (init 20000 30000)))"
    by code_simp
  from payload_Defect_digit [of "run (replicate 11 (35000, Rect 10 10 200 175)) (init 20000 30000)" "[]"] d
  show ?thesis by (simp add: payload_cases topic_def)
qed

text \<open>
  Claim C4 as the specification states it has the strings \<open>true\<close> and \<open>false\<close>. After
  the 11 failing frames of scenario B \<^verbatim>\<open>currentInfo.defect\<close> is true and the field
  sent is not \<open>true\<close>; in the initial state it is false and the field sent is not
  \<open>false\<close>.
\<close>

theorem payload_Defect_counterexample:
  "defect (currentInfo (run (replicate 11 (35000, Rect 10 10 200 175)) (init 20000 30000)))
   \<and> Defect_field (snd (last (messageRunner_round
         (run (replicate 11 (35000, Rect 10 10 200 175)) (init 20000 30000)) []))) \<noteq> Some ''true''
   \<and> \<not> defect (currentInfo (init 20000 30000))
   \<and> Defect_field (snd (last (messageRunner_round (init 20000 30000) []))) \<noteq> Some ''false''"
  by code_simp

section \<open>The queue of one frame\<close>

text \<open>
  Claim C8, as amended. \<^verbatim>\<open>addImage\<close> returns nothing. On a queue that holds a frame
  it changes nothing: the new frame is dropped, the stored one stays. On an empty queue
  it stores the frame. \<^verbatim>\<open>nextImageAvailable\<close> on an empty queue returns an empty
  \<^verbatim>\<open>Mat\<close> at once and changes nothing.
\<close>

theorem frame_slot_policy:
  "(nextImage h \<noteq> [] \<longrightarrow> snd (addImage img h) = h)
   \<and> (nextImage h = [] \<longrightarrow>
        snd (addImage img h) = h\<lparr>nextImage := [img]\<rparr> \<and> nextImageAvailable h = (None, h))"
  by (simp add: addImage_def nextImageAvailable_def)

theorem frame_slot_policy_witness:
  "snd (addImage (Some 2) \<lparr>frame = Some 2, nextImage = [Some (1::nat)]\<rparr>)
     = \<lparr>frame = Some 2, nextImage = [Some 1]\<rparr>
   \<and> snd (addImage (Some 1) \<lparr>frame = Some 1, nextImage = []\<rparr>)
     = \<lparr>frame = Some 1, nextImage = [Some (1::nat)]\<rparr>
   \<and> nextImageAvailable \<lparr>frame = Some (1::nat), nextImage = []\<rparr>
     = (None, \<lparr>frame = Some 1, nextImage = []\<rparr>)"
  using frame_slot_policy [of "\<lparr>frame = Some 2, nextImage = [Some (1::nat)]\<rparr>" "Some 2"]
    frame_slot_policy [of "\<lparr>frame = Some (1::nat), nextImage = []\<rparr>" "Some 1"]
  by simp

text \<open>
  Claim C8 as the specification states it has the call return false on a queue that
  holds a frame and true on an empty one. \<^verbatim>\<open>addImage\<close> is \<^verbatim>\<open>void\<close>: its result on
  the queue holding frame 1 and its result on the empty queue are the same value, and
  no reading of it as a truth value is false on the first and true on the second.
\<close>

theorem addImage_result_counterexample:
  "\<not> (\<exists>b :: unit \<Rightarrow> bool.
        \<not> b (fst (addImage (Some 2) \<lparr>frame = Some 2, nextImage = [Some (1::nat)]\<rparr>))
        \<and> b (fst (addImage (Some 1) \<lparr>frame = Some (1::nat), nextImage = []\<rparr>)))"
  by simp

section \<open>Which frame is measured\<close>

text \<open>
  Claim C5 at a failing input. Pictures are numbered; picture 1 shows a part of area
  25000 and every other picture one of area 35000, in pictures 960 wide. The main
  thread captures picture 1 and then picture 2 before the worker runs: picture 2 is
  dropped by \<^verbatim>\<open>addImage\<close>, the queue holds picture 1 and the global \<^verbatim>\<open>frame\<close> holds
  picture 2. The round of \<^verbatim>\<open>frameRunner\<close> then takes picture 1 from the queue and
  hands on the area 35000, the measurement of picture 2.
\<close>

theorem frameRunner_reads_global_frame:
  "fst (nextImageAvailable (capture 2 (capture (1::nat) \<lparr>frame = None, nextImage = []\<rparr>))) = Some 1
   \<and> fst (measure_frame (\<lambda>p. 960) (\<lambda>p. [Rect 10 10 200 (if p = 1 then 125 else 175)]) (1::nat)) = 25000
   \<and> fst (measure_frame (\<lambda>p. 960) (\<lambda>p. [Rect 10 10 200 (if p = 1 then 125 else 175)]) (2::nat)) = 35000
   \<and> map_option (\<lambda>hg. area (currentInfo (snd hg)))
        (frameRunner_round (\<lambda>p. 960) (\<lambda>p. [Rect 10 10 200 (if p = 1 then 125 else 175)])
           (capture 2 (capture (1::nat) \<lparr>frame = None, nextImage = []\<rparr>), init 20000 30000))
       = Some 35000"
  by (simp add: capture_def addImage_def nextImageAvailable_def measure_frame_def
      frameRunner_round_def tick_currentInfo verdict_area_rect wrap32_def)

end
